theory Spec2Isabelle
  imports Complex_Main "HOL-Library.AList"
begin

section \<open>Python values used by mzcompose\<close>

text \<open>
  The development embeds \<^verbatim>\<open>misc/python/materialize/mzcompose/__init__.py\<close>:
  the service munger (\<^verbatim>\<open>Composition._munge_services\<close>), the scoped override
  (\<^verbatim>\<open>Composition.override\<close>), the test-case harness (\<^verbatim>\<open>Composition.test_case\<close>) and
  \<^verbatim>\<open>Composition.up\<close>, with the helpers they call. Python dictionaries that are
  mutated in place become values that are passed in and returned updated;
  every \<^verbatim>\<open>raise\<close> is a branch returning the exception.
\<close>

subsection \<open>Exceptions\<close>

text \<open>
  \<^verbatim>\<open>UIError(message, hint)\<close> is the only exception class the module raises itself.
  \<open>KeyError\<close> is what a failed dictionary subscript raises. \<open>OtherException\<close> stands for
  an instance of any other subclass of \<^verbatim>\<open>Exception\<close> (class name and \<^verbatim>\<open>str(e)\<close>),
  \<open>BaseExceptionOnly\<close> for an instance of \<^verbatim>\<open>BaseException\<close> that is not an
  \<^verbatim>\<open>Exception\<close> (\<^verbatim>\<open>KeyboardInterrupt\<close>, \<^verbatim>\<open>SystemExit\<close>, \<^verbatim>\<open>GeneratorExit\<close>).
\<close>

datatype exn =
    UIError string "string option"
  | KeyError string
  | OtherException string string
  | BaseExceptionOnly string string

fun isinstance_Exception :: "exn \<Rightarrow> bool" where
  "isinstance_Exception (UIError m h) = True"
| "isinstance_Exception (KeyError k) = True"
| "isinstance_Exception (OtherException c m) = True"
| "isinstance_Exception (BaseExceptionOnly c m) = False"

text \<open>
  \<^verbatim>\<open>str(e)\<close>. For a \<^verbatim>\<open>KeyError\<close> it is the \<^verbatim>\<open>repr\<close> of the key, written here
  for keys without quotes, backslashes or unprintable characters (service names).
\<close>

definition repr_str :: "string \<Rightarrow> string" where
  "repr_str s = [CHR 0x27] @ s @ [CHR 0x27]"

fun str_exn :: "exn \<Rightarrow> string" where
  "str_exn (UIError m h) = m"
| "str_exn (KeyError k) = repr_str k"
| "str_exn (OtherException c m) = m"
| "str_exn (BaseExceptionOnly c m) = m"

subsection \<open>Strings and decimal numerals\<close>

definition startswith :: "string \<Rightarrow> string \<Rightarrow> bool" where
  "startswith s p = (take (length p) s = p)"

definition endswith :: "string \<Rightarrow> string \<Rightarrow> bool" where
  "endswith s p = startswith (rev s) (rev p)"

definition digit_char :: "nat \<Rightarrow> char" where
  "digit_char d = ''0123456789'' ! d"

fun str_nat :: "nat \<Rightarrow> string" where
  "str_nat n = (if n < 10 then [digit_char n] else str_nat (n div 10) @ [digit_char (n mod 10)])"

declare str_nat.simps [simp del]

definition str_int :: "int \<Rightarrow> string" where
  "str_int i = (if i < 0 then CHR ''-'' # str_nat (nat (- i)) else str_nat (nat i))"

section \<open>Data model\<close>

text \<open>A port entry is \<^verbatim>\<open>Union[int, str]\<close>; \<open>port_str\<close> is \<^verbatim>\<open>str(port)\<close>.\<close>

datatype port = PInt int | PStr string

fun port_str :: "port \<Rightarrow> string" where
  "port_str (PInt i) = str_int i"
| "port_str (PStr s) = s"

text \<open>Values of the configuration keys that the modelled functions never read.\<close>

datatype yaml_value =
    YNull
  | YBool bool
  | YInt int
  | YStr string
  | YList "yaml_value list"
  | YDict "(string \<times> yaml_value) list"

text \<open>
  \<^verbatim>\<open>ServiceConfig\<close> is a \<^verbatim>\<open>TypedDict\<close> with \<^verbatim>\<open>total=False\<close>: every key may be absent
  (\<open>None\<close>). The keys the module reads or writes are fields of their own
  (\<^verbatim>\<open>user\<close> is written by the munger although the \<^verbatim>\<open>TypedDict\<close> does not list it);
  the key \<^verbatim>\<open>image\<close> is the field \<open>image_ref\<close>. All remaining keys are kept in \<open>other\<close>.
\<close>

record service_config =
  mzbuild :: "string option"
  propagate_uid_gid :: "bool option"
  allow_host_ports :: "bool option"
  image_ref :: "string option"
  user :: "string option"
  entrypoint :: "string list option"
  command :: "string list option"
  ports :: "port list option"
  environment :: "string list option"
  volumes :: "string list option"
  other :: "(string \<times> yaml_value) list"

record service =
  svc_name :: string
  svc_config :: service_config

text \<open>
  \<^verbatim>\<open>Service\<close>: the attributes \<^verbatim>\<open>name\<close> and \<^verbatim>\<open>config\<close> are the fields \<open>svc_name\<close>
  and \<open>svc_config\<close>.
\<close>

text \<open>
  \<^verbatim>\<open>self.compose\<close>: the keys \<^verbatim>\<open>version\<close>, \<^verbatim>\<open>services\<close> and \<^verbatim>\<open>volumes\<close> (field
  \<open>top_volumes\<close>). A Python \<^verbatim>\<open>dict\<close> keeps insertion order and unique keys: an
  association list written with \<open>AList.update\<close>, which replaces the value of an
  existing key in place and appends a new key.
\<close>

record compose_doc =
  version :: string
  services :: "(string \<times> service_config) list"
  top_volumes :: "(string \<times> yaml_value) list"

record test_result =
  duration :: real
  error :: "string option"

text \<open>
  The module \<^verbatim>\<open>materialize.mzbuild\<close> is imported, not part of this file. What the
  munger and the override use of a \<^verbatim>\<open>Repository\<close> is taken as a parameter:
  \<open>images\<close> is \<^verbatim>\<open>repo.images\<close>, \<open>coverage\<close> is \<^verbatim>\<open>repo.rd.coverage\<close>,
  \<open>resolve_dependencies\<close> is \<^verbatim>\<open>repo.resolve_dependencies(images)\<close>, \<open>dep_spec d n\<close> is
  \<^verbatim>\<open>d[n].spec()\<close> and \<open>acquire d\<close> is \<^verbatim>\<open>d.acquire()\<close> (\<open>None\<close> when it returns).
\<close>

record ('img, 'deps) repository =
  images :: "string \<rightharpoonup> 'img"
  coverage :: bool
  resolve_dependencies :: "'img list \<Rightarrow> exn + 'deps"
  dep_spec :: "'deps \<Rightarrow> string \<Rightarrow> exn + string"
  acquire :: "'deps \<Rightarrow> exn option"

text \<open>
  What the module asks of the host: \<^verbatim>\<open>os.getuid()\<close>, \<^verbatim>\<open>os.getgid()\<close>,
  \<^verbatim>\<open>yaml.dump\<close>, and the exit status of \<^verbatim>\<open>docker compose\<close> run on the rendered
  file with a project name and arguments.
\<close>

record host =
  getuid :: nat
  getgid :: nat
  yaml_dump :: "compose_doc \<Rightarrow> string"
  docker_compose :: "string \<Rightarrow> string option \<Rightarrow> string list \<Rightarrow> int"

text \<open>
  The attributes of a \<^verbatim>\<open>Composition\<close> that the modelled methods use. \<open>rendered\<close> is the
  content of the temporary file handed to Docker Compose.
\<close>

record ('img, 'deps) composition =
  repo :: "('img, 'deps) repository"
  preserve_ports :: bool
  project_name :: "string option"
  compose :: compose_doc
  rendered :: string
  test_results :: "(string \<times> test_result) list"

section \<open>The service munger\<close>

text \<open>
  \<^verbatim>\<open>config.get(key, default)\<close>, and \<^verbatim>\<open>config.setdefault(key, default)\<close> read as a value:
  the value of the key, or the default when the key is absent.
\<close>

definition dict_get :: "'a option \<Rightarrow> 'a \<Rightarrow> 'a" where
  "dict_get v d = (case v of None \<Rightarrow> d | Some x \<Rightarrow> x)"

text \<open>The two \<^verbatim>\<open>UIError\<close>s of \<^verbatim>\<open>_munge_services\<close>, under the names of the specification.\<close>

definition UnknownBuildTarget :: "string \<Rightarrow> exn" where
  "UnknownBuildTarget image_name = UIError (''mzcompose: unknown image '' @ image_name) None"

definition DisallowedHostPort :: exn where
  "DisallowedHostPort =
     UIError ''programming error: disallowed host port in service {name!r}''
       (Some (''Add `'' @ [CHR 0x22] @ ''allow_host_ports'' @ [CHR 0x22]
              @ '': True` to the service config to disable this check.''))"

text \<open>Lines 168-171: \<^verbatim>\<open>propagate_uid_gid\<close>.\<close>

definition munge_uid_gid :: "host \<Rightarrow> service_config \<Rightarrow> service_config" where
  "munge_uid_gid h config =
     (case propagate_uid_gid config of
        None \<Rightarrow> config
      | Some b \<Rightarrow>
          (if b then config\<lparr>user := Some (str_nat (getuid h) @ '':'' @ str_nat (getgid h))\<rparr>
           else config)\<lparr>propagate_uid_gid := None\<rparr>)"

text \<open>
  Lines 174-185: the loop over the ports. It returns the exception, if one is raised,
  and the list as the loop leaves it.
\<close>

fun munge_ports :: "bool \<Rightarrow> bool \<Rightarrow> port list \<Rightarrow> exn option \<times> port list" where
  "munge_ports preserve allow [] = (None, [])"
| "munge_ports preserve allow (p # ps) =
     (if preserve \<and> CHR '':'' \<notin> set (port_str p) then
        (case munge_ports preserve allow ps of
           (e, ps') \<Rightarrow> (e, PStr (port_str p @ '':'' @ port_str p) # ps'))
      else if CHR '':'' \<in> set (port_str p) \<and> \<not> allow then
        (Some DisallowedHostPort, p # ps)
      else
        (case munge_ports preserve allow ps of (e, ps') \<Rightarrow> (e, p # ps')))"

text \<open>Lines 190-209: the body of \<^verbatim>\<open>if self.repo.rd.coverage\<close>.\<close>

definition coverage_volume :: string where
  "coverage_volume = ''./coverage:/coverage''"

definition llvm_profile_file :: "string \<Rightarrow> string" where
  "llvm_profile_file n = ''LLVM_PROFILE_FILE=/coverage/'' @ n @ ''-%p-%9m%c.profraw''"

text \<open>
  The \<^verbatim>\<open>for ... else\<close> over the environment: the first entry with the variable name
  is overwritten and the loop breaks; \<open>None\<close> when the loop ends without a break.
\<close>

fun replace_profile :: "string \<Rightarrow> string list \<Rightarrow> string list option" where
  "replace_profile l [] = None"
| "replace_profile l (env # envs) =
     (if startswith env ''LLVM_PROFILE_FILE='' then Some (l # envs)
      else map_option ((#) env) (replace_profile l envs))"

definition munge_coverage :: "string \<Rightarrow> service_config \<Rightarrow> service_config" where
  "munge_coverage n config =
     (let config1 =
            (if coverage_volume \<notin> set (dict_get (volumes config) [])
             then config\<lparr>volumes := Some (dict_get (volumes config) [] @ [coverage_volume])\<rparr>
             else config)
      in case replace_profile (llvm_profile_file n) (dict_get (environment config1) []) of
           Some es' \<Rightarrow> config1\<lparr>environment := Some es'\<rparr>
         | None \<Rightarrow>
             config1\<lparr>environment :=
               Some (dict_get (environment config1) [] @ [llvm_profile_file n])\<rparr>)"

text \<open>
  Lines 160-209: one iteration of the first loop. It returns the exception raised, if
  any, the configuration as the iteration leaves it (it is mutated in place), and the
  images appended to \<^verbatim>\<open>images\<close>.
\<close>

definition munge_service ::
  "host \<Rightarrow> ('img, 'deps) composition \<Rightarrow> string \<Rightarrow> service_config
   \<Rightarrow> exn option \<times> service_config \<times> 'img list" where
  "munge_service h self n config =
     (case (case mzbuild config of
              None \<Rightarrow> Inr []
            | Some image_name \<Rightarrow>
                (case images (repo self) image_name of
                   None \<Rightarrow> Inl (UnknownBuildTarget image_name)
                 | Some img \<Rightarrow> Inr [img])) of
        Inl e \<Rightarrow> (Some e, config, [])
      | Inr imgs \<Rightarrow>
          (let config1 = munge_uid_gid h config;
               allow = dict_get (allow_host_ports config1) False
           in case munge_ports (preserve_ports self) allow (dict_get (ports config1) []) of
                (Some e, ports1) \<Rightarrow> (Some e, config1\<lparr>ports := Some ports1\<rparr>, imgs)
              | (None, ports1) \<Rightarrow>
                  (let config2 = config1\<lparr>ports := Some ports1, allow_host_ports := None\<rparr>
                   in (None,
                       if coverage (repo self) then munge_coverage n config2 else config2,
                       imgs))))"

text \<open>Lines 159-209: the first loop over the services.\<close>

fun munge_loop ::
  "host \<Rightarrow> ('img, 'deps) composition \<Rightarrow> (string \<times> service_config) list
   \<Rightarrow> exn option \<times> (string \<times> service_config) list \<times> 'img list" where
  "munge_loop h self [] = (None, [], [])"
| "munge_loop h self ((n, config) # rest) =
     (case munge_service h self n config of
        (Some e, config', imgs) \<Rightarrow> (Some e, (n, config') # rest, imgs)
      | (None, config', imgs) \<Rightarrow>
          (case munge_loop h self rest of
             (e, rest', imgs') \<Rightarrow> (e, (n, config') # rest', imgs @ imgs')))"

text \<open>Lines 213-216: the second loop, which replaces build references by images.\<close>

fun inject_images ::
  "('img, 'deps) repository \<Rightarrow> 'deps \<Rightarrow> (string \<times> service_config) list
   \<Rightarrow> exn option \<times> (string \<times> service_config) list" where
  "inject_images r deps [] = (None, [])"
| "inject_images r deps ((n, config) # rest) =
     (case mzbuild config of
        None \<Rightarrow>
          (case inject_images r deps rest of (e, rest') \<Rightarrow> (e, (n, config) # rest'))
      | Some m \<Rightarrow>
          (case dep_spec r deps m of
             Inl e \<Rightarrow> (Some e, (n, config) # rest)
           | Inr spec \<Rightarrow>
               (case inject_images r deps rest of
                  (e, rest') \<Rightarrow>
                    (e, (n, config\<lparr>image_ref := Some spec, mzbuild := None\<rparr>) # rest'))))"

text \<open>
  \<^verbatim>\<open>Composition._munge_services\<close>: the dependency set or the exception, and the
  service configurations as the call leaves them.
\<close>

definition munge_services ::
  "host \<Rightarrow> ('img, 'deps) composition \<Rightarrow> (string \<times> service_config) list
   \<Rightarrow> (exn + 'deps) \<times> (string \<times> service_config) list" where
  "munge_services h self svcs =
     (case munge_loop h self svcs of
        (Some e, svcs1, imgs) \<Rightarrow> (Inl e, svcs1)
      | (None, svcs1, imgs) \<Rightarrow>
          (case resolve_dependencies (repo self) imgs of
             Inl e \<Rightarrow> (Inl e, svcs1)
           | Inr deps \<Rightarrow>
               (case inject_images (repo self) deps svcs1 of
                  (Some e, svcs2) \<Rightarrow> (Inl e, svcs2)
                | (None, svcs2) \<Rightarrow> (Inr deps, svcs2))))"

section \<open>Rendering and invoking Docker Compose\<close>

text \<open>\<^verbatim>\<open>Composition._write_compose\<close>: the temporary file is truncated and rewritten.\<close>

definition write_compose ::
  "host \<Rightarrow> ('img, 'deps) composition \<Rightarrow> ('img, 'deps) composition" where
  "write_compose h self = self\<lparr>rendered := yaml_dump h (compose self)\<rparr>"

definition RuntimeInvocationFailed :: "int \<Rightarrow> exn" where
  "RuntimeInvocationFailed rc =
     UIError (''running docker compose failed (exit status '' @ str_int rc @ '')'') None"

text \<open>
  \<^verbatim>\<open>Composition.invoke\<close>: \<^verbatim>\<open>subprocess.run(..., check=check)\<close> raises
  \<^verbatim>\<open>CalledProcessError\<close> on a non-zero exit status when \<^verbatim>\<open>check\<close> is set, which
  \<^verbatim>\<open>invoke\<close> turns into a \<^verbatim>\<open>UIError\<close>. \<open>None\<close> is a normal return.
\<close>

definition invoke ::
  "host \<Rightarrow> ('img, 'deps) composition \<Rightarrow> string list \<Rightarrow> bool \<Rightarrow> exn option" where
  "invoke h self args check =
     (let rc = docker_compose h (rendered self) (project_name self) args
      in if check \<and> rc \<noteq> 0 then Some (RuntimeInvocationFailed rc) else None)"

text \<open>\<^verbatim>\<open>Composition.pull_if_variable\<close>.\<close>

fun pull_if_variable ::
  "host \<Rightarrow> ('img, 'deps) composition \<Rightarrow> string list \<Rightarrow> exn option" where
  "pull_if_variable h self [] = None"
| "pull_if_variable h self (s # rest) =
     (case map_of (services (compose self)) s of
        None \<Rightarrow> Some (KeyError s)
      | Some cfg \<Rightarrow>
          (if (case image_ref cfg of
                 None \<Rightarrow> False
               | Some img \<Rightarrow> list_ex (endswith img) ['':latest'', '':unstable'', '':rolling''])
           then (case invoke h self [''pull'', s] True of
                   Some e \<Rightarrow> Some e
                 | None \<Rightarrow> pull_if_variable h self rest)
           else pull_if_variable h self rest))"

section \<open>The scoped override\<close>

text \<open>
  The body of a \<^verbatim>\<open>with\<close> statement is any code that has the composition at hand:
  a function from the composition to the exception it raises (\<open>None\<close> when it returns)
  and the composition as it leaves it.
\<close>

type_synonym ('img, 'deps) body =
  "('img, 'deps) composition \<Rightarrow> exn option \<times> ('img, 'deps) composition"

text \<open>
  Line 357, for every service: \<^verbatim>\<open>self.compose["services"][service.name] = service.config\<close>.
\<close>

definition install_services ::
  "(string \<times> service_config) list \<Rightarrow> compose_doc \<Rightarrow> compose_doc" where
  "install_services svcs doc =
     doc\<lparr>services := fold (\<lambda>(n, c) ss. AList.update n c ss) svcs (services doc)\<rparr>"

text \<open>
  Lines 355-366 of \<^verbatim>\<open>Composition.override\<close>: what runs between the snapshot and the
  \<^verbatim>\<open>try\<close>. An exception raised here leaves the generator before the \<^verbatim>\<open>try\<close> is
  entered, so the \<^verbatim>\<open>finally\<close> clause does not run for it.
\<close>

definition override_enter ::
  "host \<Rightarrow> ('img, 'deps) composition \<Rightarrow> service list
   \<Rightarrow> exn option \<times> ('img, 'deps) composition" where
  "override_enter h self svcs =
     (case munge_services h self (map (\<lambda>s. (svc_name s, svc_config s)) svcs) of
        (Inl e, svcs') \<Rightarrow> (Some e, self)
      | (Inr deps, svcs') \<Rightarrow>
          (let self1 = self\<lparr>compose := install_services svcs' (compose self)\<rparr>
           in case acquire (repo self1) deps of
                Some e \<Rightarrow> (Some e, self1)
              | None \<Rightarrow>
                  (let self2 = write_compose h self1
                   in (pull_if_variable h self2 (map svc_name svcs), self2))))"

text \<open>
  \<^verbatim>\<open>Composition.override\<close> used as \<^verbatim>\<open>with c.override(*services): body\<close>.
  \<^verbatim>\<open>copy.deepcopy\<close> of a value is the value. The \<^verbatim>\<open>finally\<close> clause runs whether the
  body returns or raises, and the body's exception propagates after it.
\<close>

definition override ::
  "host \<Rightarrow> ('img, 'deps) composition \<Rightarrow> service list \<Rightarrow> ('img, 'deps) body
   \<Rightarrow> exn option \<times> ('img, 'deps) composition" where
  "override h self svcs body =
     (let old_compose = compose self
      in case override_enter h self svcs of
           (Some e, self1) \<Rightarrow> (Some e, self1)
         | (None, self1) \<Rightarrow>
             (case body self1 of
                (r, self2) \<Rightarrow> (r, write_compose h (self2\<lparr>compose := old_compose\<rparr>))))"

section \<open>The test-case harness\<close>

definition DuplicateTestCase :: "string \<Rightarrow> exn" where
  "DuplicateTestCase n = UIError (''test case '' @ n @ '' executed twice'') None"

text \<open>
  \<^verbatim>\<open>Composition.test_case\<close> used as \<^verbatim>\<open>with c.test_case(name): body\<close>. \<open>start_time\<close> and
  \<open>end_time\<close> are the values of the two calls of \<^verbatim>\<open>time.time()\<close>, before and after
  the body. Only a subclass of \<^verbatim>\<open>Exception\<close> is caught; any other exception leaves
  the generator at the \<^verbatim>\<open>yield\<close> and the lines after the \<^verbatim>\<open>try\<close> do not run.
\<close>

definition test_case ::
  "('img, 'deps) composition \<Rightarrow> string \<Rightarrow> real \<Rightarrow> real \<Rightarrow> ('img, 'deps) body
   \<Rightarrow> exn option \<times> ('img, 'deps) composition" where
  "test_case self n start_time end_time body =
     (if map_of (test_results self) n \<noteq> None then (Some (DuplicateTestCase n), self)
      else
        (case body self of
           (None, self1) \<Rightarrow>
             (None, self1\<lparr>test_results :=
                AList.update n \<lparr>duration = end_time - start_time, error = None\<rparr>
                  (test_results self1)\<rparr>)
         | (Some e, self1) \<Rightarrow>
             (if isinstance_Exception e then
                (None, self1\<lparr>test_results :=
                   AList.update n \<lparr>duration = end_time - start_time, error = Some (str_exn e)\<rparr>
                     (test_results self1)\<rparr>)
              else (Some e, self1))))"

section \<open>Bringing services up\<close>

text \<open>Lines 605-607: every service gets the entrypoint \<^verbatim>\<open>sleep infinity\<close> and no command.\<close>

definition make_persistent :: "compose_doc \<Rightarrow> compose_doc" where
  "make_persistent doc =
     doc\<lparr>services :=
       map (\<lambda>(n, c). (n, c\<lparr>entrypoint := Some [''sleep'', ''infinity''], command := Some []\<rparr>))
         (services doc)\<rparr>"

text \<open>\<^verbatim>\<open>Composition.up\<close>.\<close>

definition up ::
  "host \<Rightarrow> ('img, 'deps) composition \<Rightarrow> string list \<Rightarrow> bool \<Rightarrow> bool \<Rightarrow> bool
   \<Rightarrow> exn option \<times> ('img, 'deps) composition" where
  "up h self svc_names detach wait persistent =
     (let old_compose = compose self;
          self1 = (if persistent
                   then write_compose h (self\<lparr>compose := make_persistent (compose self)\<rparr>)
                   else self)
      in case invoke h self1
                ([''up''] @ (if detach then [''--detach''] else [])
                 @ (if wait then [''--wait''] else []) @ svc_names) True of
           Some e \<Rightarrow> (Some e, self1)
         | None \<Rightarrow>
             (None,
              if persistent then write_compose h (self1\<lparr>compose := old_compose\<rparr>) else self1))"

section \<open>Auxiliary notions and example inputs\<close>

text \<open>The environment entries that set the variable \<^verbatim>\<open>LLVM_PROFILE_FILE\<close>.\<close>

definition profile_entries :: "string list \<Rightarrow> string list" where
  "profile_entries es = filter (\<lambda>e. startswith e ''LLVM_PROFILE_FILE='') es"

text \<open>
  A configuration resolves against a dependency set when its build reference, if it
  has one, names an image of the repository, that image alone resolves to the
  dependency set, and the dependency set has a specification for it.
\<close>

definition build_resolves ::
  "('img, 'deps) repository \<Rightarrow> service_config \<Rightarrow> 'deps \<Rightarrow> bool" where
  "build_resolves r config deps =
     (case mzbuild config of
        None \<Rightarrow> resolve_dependencies r [] = Inr deps
      | Some m \<Rightarrow>
          (case images r m of
             None \<Rightarrow> False
           | Some img \<Rightarrow>
               resolve_dependencies r [img] = Inr deps
               \<and> (case dep_spec r deps m of Inl e \<Rightarrow> False | Inr spec \<Rightarrow> True)))"

text \<open>The empty dictionary \<^verbatim>\<open>{}\<close> as a service configuration.\<close>

definition empty_config :: service_config where
  "empty_config =
     \<lparr>mzbuild = None, propagate_uid_gid = None, allow_host_ports = None, image_ref = None,
      user = None, entrypoint = None, command = None, ports = None, environment = None,
      volumes = None, other = []\<rparr>"

text \<open>
  Concrete collaborators for the examples: a renderer that lists, for every service,
  its name, image and entrypoint; a host whose Docker Compose always exits with 0, and
  one where it always exits with 1; a repository that knows the image
  \<^verbatim>\<open>materialized\<close>, whose dependency sets are lists of image names.
\<close>

definition example_dump :: "compose_doc \<Rightarrow> string" where
  "example_dump doc =
     concat (map (\<lambda>(n, c). n @ '' '' @ dict_get (image_ref c) ''-'' @ '' ''
                            @ concat (dict_get (entrypoint c) []) @ '';'')
               (services doc))"

definition example_host :: host where
  "example_host =
     \<lparr>getuid = 501, getgid = 20, yaml_dump = example_dump,
      docker_compose = (\<lambda>f p args. 0)\<rparr>"

definition failing_host :: host where
  "failing_host = example_host\<lparr>docker_compose := (\<lambda>f p args. 1)\<rparr>"

definition example_repo :: "(string, string list) repository" where
  "example_repo =
     \<lparr>images = [''materialized'' \<mapsto> ''materialized''],
      coverage = False,
      resolve_dependencies = Inr,
      dep_spec = (\<lambda>deps m. if m \<in> set deps then Inr (''materialize/'' @ m @ '':mzbuild-1'')
                            else Inl (KeyError m)),
      acquire = (\<lambda>deps. None)\<rparr>"

definition example_doc :: compose_doc where
  "example_doc =
     \<lparr>version = ''3.7'',
      services = [(''db'', empty_config\<lparr>image_ref := Some ''postgres:14'',
                                       ports := Some [PInt 5432]\<rparr>)],
      top_volumes = [(''mzdata'', YNull), (''pgdata'', YNull), (''mydata'', YNull),
                     (''tmp'', YNull), (''secrets'', YNull)]\<rparr>"

definition example_composition :: "(string, string list) composition" where
  "example_composition =
     \<lparr>repo = example_repo, preserve_ports = False, project_name = None,
      compose = example_doc, rendered = example_dump example_doc, test_results = []\<rparr>"

text \<open>
  Two bodies of a \<^verbatim>\<open>with\<close> statement: \<^verbatim>\<open>raise e\<close> and \<^verbatim>\<open>pass\<close>; and a body that
  first rewrites every service of the live specification and then raises.
\<close>

definition raising :: "exn \<Rightarrow> ('img, 'deps) body" where
  "raising e self = (Some e, self)"

definition passing :: "('img, 'deps) body" where
  "passing self = (None, self)"

definition meddling :: "exn \<Rightarrow> ('img, 'deps) body" where
  "meddling e self = (Some e, self\<lparr>compose := make_persistent (compose self)\<rparr>)"

section \<open>Properties of the munger\<close>

subsection \<open>Coverage injection\<close>

lemma llvm_profile_file_startswith: "startswith (llvm_profile_file n) ''LLVM_PROFILE_FILE=''"
  by (simp add: llvm_profile_file_def startswith_def)

lemma replace_profile_None:
  "replace_profile l es = None \<longleftrightarrow> profile_entries es = []"
  by (induction es) (auto simp: profile_entries_def)

lemma replace_profile_Some_entries:
  "replace_profile l es = Some es' \<Longrightarrow> startswith l ''LLVM_PROFILE_FILE=''
   \<Longrightarrow> profile_entries es' = l # tl (profile_entries es)"
  by (induction es arbitrary: es') (auto simp: profile_entries_def split: if_splits)

lemma replace_profile_idem:
  "replace_profile l es = Some es' \<Longrightarrow> startswith l ''LLVM_PROFILE_FILE=''
   \<Longrightarrow> replace_profile l es' = Some es'"
  by (induction es arbitrary: es') (auto split: if_splits)

lemma replace_profile_append:
  "replace_profile l es = None \<Longrightarrow> startswith l ''LLVM_PROFILE_FILE=''
   \<Longrightarrow> replace_profile l (es @ [l]) = Some (es @ [l])"
  by (induction es) (auto split: if_splits)

lemma munge_coverage_eq:
  "munge_coverage n c =
     c\<lparr>volumes := (if coverage_volume \<in> set (dict_get (volumes c) []) then volumes c
                    else Some (dict_get (volumes c) [] @ [coverage_volume])),
       environment := Some (case replace_profile (llvm_profile_file n) (dict_get (environment c) []) of
                              Some es' \<Rightarrow> es'
                            | None \<Rightarrow> dict_get (environment c) [] @ [llvm_profile_file n])\<rparr>"
  by (simp add: munge_coverage_def Let_def split: option.splits)

lemma dict_get_Some [simp]: "dict_get (Some x) d = x"
  by (simp add: dict_get_def)

lemma dict_get_None [simp]: "dict_get None d = d"
  by (simp add: dict_get_def)

lemma coverage_volume_kept:
  "coverage_volume \<in> set (dict_get v []) \<Longrightarrow> Some (dict_get v []) = v"
  by (cases v) auto

lemma replace_profile_fix:
  "replace_profile (llvm_profile_file n)
     (case replace_profile (llvm_profile_file n) es of Some es' \<Rightarrow> es'
      | None \<Rightarrow> es @ [llvm_profile_file n])
   = Some (case replace_profile (llvm_profile_file n) es of Some es' \<Rightarrow> es'
      | None \<Rightarrow> es @ [llvm_profile_file n])"
  by (simp add: replace_profile_idem replace_profile_append llvm_profile_file_startswith
        split: option.splits)

lemma munge_coverage_idem: "munge_coverage n (munge_coverage n c) = munge_coverage n c"
  by (simp add: munge_coverage_eq [of n "c\<lparr>volumes := _, environment := _\<rparr>"]
        munge_coverage_eq [of n c] replace_profile_fix)

lemma munge_coverage_volumes:
  "count_list (dict_get (volumes (munge_coverage n c)) []) coverage_volume
     = max 1 (count_list (dict_get (volumes c) []) coverage_volume)"
  by (auto simp: munge_coverage_eq count_list_0_iff max_def not_le
      dest: count_notin)

lemma munge_coverage_environment:
  "profile_entries (dict_get (environment (munge_coverage n c)) [])
     = llvm_profile_file n # tl (profile_entries (dict_get (environment c) []))"
proof (cases "replace_profile (llvm_profile_file n) (dict_get (environment c) [])")
  case None
  then have "profile_entries (dict_get (environment c) []) = []"
    by (simp add: replace_profile_None)
  with None show ?thesis
    using llvm_profile_file_startswith [of n]
    by (simp add: munge_coverage_eq profile_entries_def)
next
  case (Some es')
  then show ?thesis
    by (simp add: munge_coverage_eq
          replace_profile_Some_entries [OF Some llvm_profile_file_startswith])
qed


subsection \<open>The port loop\<close>

lemma munge_ports_disallowed:
  "p \<in> set ps \<Longrightarrow> CHR '':'' \<in> set (port_str p)
   \<Longrightarrow> fst (munge_ports preserve False ps) = Some DisallowedHostPort"
  by (induction ps) (auto split: prod.splits)

lemma munge_ports_allowed:
  "munge_ports preserve True ps =
     (None, map (\<lambda>p. if preserve \<and> CHR '':'' \<notin> set (port_str p)
                      then PStr (port_str p @ '':'' @ port_str p) else p) ps)"
  by (induction ps) auto


subsection \<open>One service\<close>

lemma munge_uid_gid_fields [simp]:
  "mzbuild (munge_uid_gid h c) = mzbuild c"
  "image_ref (munge_uid_gid h c) = image_ref c"
  "ports (munge_uid_gid h c) = ports c"
  "allow_host_ports (munge_uid_gid h c) = allow_host_ports c"
  by (simp_all add: munge_uid_gid_def split: option.splits)

lemma munge_coverage_fields [simp]:
  "mzbuild (munge_coverage n c) = mzbuild c"
  "image_ref (munge_coverage n c) = image_ref c"
  "ports (munge_coverage n c) = ports c"
  "allow_host_ports (munge_coverage n c) = allow_host_ports c"
  by (simp_all add: munge_coverage_eq)

lemma munge_service_keeps_build:
  "munge_service h self n c = (r, c', imgs)
   \<Longrightarrow> mzbuild c' = mzbuild c \<and> image_ref c' = image_ref c"
  by (auto simp: munge_service_def Let_def split: option.splits prod.splits if_splits)


subsection \<open>The two loops\<close>

lemma munge_loop_length:
  "munge_loop h self svcs = (r, svcs', imgs) \<Longrightarrow> length svcs' = length svcs"
  by (induction svcs arbitrary: r svcs' imgs) (auto split: prod.splits option.splits)

lemma munge_loop_keeps_build:
  "munge_loop h self svcs = (r, svcs', imgs) \<Longrightarrow> i < length svcs
   \<Longrightarrow> fst (svcs' ! i) = fst (svcs ! i)
       \<and> mzbuild (snd (svcs' ! i)) = mzbuild (snd (svcs ! i))
       \<and> image_ref (snd (svcs' ! i)) = image_ref (snd (svcs ! i))"
proof (induction svcs arbitrary: r svcs' imgs i)
  case Nil
  then show ?case by simp
next
  case (Cons a svcs)
  obtain n c where a: "a = (n, c)" by (cases a)
  obtain r1 c1 imgs1 where ms: "munge_service h self n c = (r1, c1, imgs1)"
    by (cases "munge_service h self n c")
  note kb = munge_service_keeps_build [OF ms]
  show ?case
  proof (cases r1)
    case (Some e)
    with Cons.prems a ms kb show ?thesis by (cases i) auto
  next
    case None
    obtain r2 rest2 imgs2 where ml: "munge_loop h self svcs = (r2, rest2, imgs2)"
      by (cases "munge_loop h self svcs")
    from Cons.prems a ms None ml have s': "svcs' = (n, c1) # rest2" by auto
    show ?thesis
    proof (cases i)
      case 0
      with s' a kb show ?thesis by simp
    next
      case (Suc j)
      with Cons.prems have "j < length svcs" by simp
      from Cons.IH [OF ml this] s' a Suc show ?thesis by simp
    qed
  qed
qed




lemma inject_images_ok:
  "inject_images r deps svcs = (None, svcs') \<Longrightarrow>
   length svcs' = length svcs
   \<and> (\<forall>i<length svcs.
         fst (svcs' ! i) = fst (svcs ! i)
         \<and> mzbuild (snd (svcs' ! i)) = None
         \<and> (\<forall>m. mzbuild (snd (svcs ! i)) = Some m \<longrightarrow>
               (\<exists>spec. dep_spec r deps m = Inr spec \<and> image_ref (snd (svcs' ! i)) = Some spec))
         \<and> (mzbuild (snd (svcs ! i)) = None \<longrightarrow> snd (svcs' ! i) = snd (svcs ! i)))"
proof (induction svcs arbitrary: svcs')
  case Nil
  then show ?case by simp
next
  case (Cons a svcs)
  obtain n c where a: "a = (n, c)" by (cases a)
  obtain r2 rest2 where ii: "inject_images r deps svcs = (r2, rest2)"
    by (cases "inject_images r deps svcs")
  show ?case
  proof (cases "mzbuild c")
    case None
    with Cons.prems a ii have r2: "r2 = None" and s': "svcs' = (n, c) # rest2" by auto
    from Cons.IH [OF ii [unfolded r2]] s' a None show ?thesis
      by (auto simp: nth_Cons split: nat.splits)
  next
    case (Some m)
    with Cons.prems a ii obtain spec where
      sp: "dep_spec r deps m = Inr spec" and r2: "r2 = None"
      and s': "svcs' = (n, c\<lparr>image_ref := Some spec, mzbuild := None\<rparr>) # rest2"
      by (auto split: sum.splits)
    from Cons.IH [OF ii [unfolded r2]] s' a Some sp show ?thesis
      by (auto simp: nth_Cons split: nat.splits)
  qed
qed

lemma munge_services_ok_parts:
  assumes "munge_services h self svcs = (Inr deps, svcs')"
  shows "\<exists>svcs1 imgs. munge_loop h self svcs = (None, svcs1, imgs)
           \<and> resolve_dependencies (repo self) imgs = Inr deps
           \<and> inject_images (repo self) deps svcs1 = (None, svcs')"
  using assms
  by (auto simp: munge_services_def split: prod.splits option.splits sum.splits)

lemma munge_service_disallowed:
  assumes "ports c = Some ps" "p \<in> set ps" "CHR '':'' \<in> set (port_str p)"
    and "allow_host_ports c \<noteq> Some True"
    and "\<forall>m. mzbuild c = Some m \<longrightarrow> images (repo self) m \<noteq> None"
  shows "fst (munge_service h self n c) = Some DisallowedHostPort"
proof -
  from assms(4) have al: "dict_get (allow_host_ports c) False = False"
    by (cases "allow_host_ports c") (auto simp: dict_get_def)
  from munge_ports_disallowed [OF assms(2,3), where preserve = "preserve_ports self"] obtain ps' where
    mp: "munge_ports (preserve_ports self) False ps = (Some DisallowedHostPort, ps')"
    by (cases "munge_ports (preserve_ports self) False ps") auto
  from assms(5) al mp assms(1) show ?thesis
    by (auto simp: munge_service_def Let_def split: option.splits)
qed

lemma munge_service_allowed:
  assumes "allow_host_ports c = Some True"
  shows "munge_service h self n c =
     (case mzbuild c of
        None \<Rightarrow> (None, (if coverage (repo self) then munge_coverage n else id)
                   ((munge_uid_gid h c)\<lparr>ports := Some (map (\<lambda>p. if preserve_ports self \<and> CHR '':'' \<notin> set (port_str p)
                      then PStr (port_str p @ '':'' @ port_str p) else p) (dict_get (ports c) [])),
                      allow_host_ports := None\<rparr>), [])
      | Some m \<Rightarrow>
         (case images (repo self) m of
            None \<Rightarrow> (Some (UnknownBuildTarget m), c, [])
          | Some img \<Rightarrow> (None, (if coverage (repo self) then munge_coverage n else id)
                   ((munge_uid_gid h c)\<lparr>ports := Some (map (\<lambda>p. if preserve_ports self \<and> CHR '':'' \<notin> set (port_str p)
                      then PStr (port_str p @ '':'' @ port_str p) else p) (dict_get (ports c) [])),
                      allow_host_ports := None\<rparr>), [img])))"
  using assms
  by (simp add: munge_service_def Let_def munge_ports_allowed split: option.splits)

lemma munge_services_resolved:
  assumes "munge_services h self svcs = (Inr deps, svcs')"
  shows "length svcs' = length svcs
     \<and> (\<forall>i<length svcs.
           fst (svcs' ! i) = fst (svcs ! i)
           \<and> mzbuild (snd (svcs' ! i)) = None
           \<and> (\<forall>m. mzbuild (snd (svcs ! i)) = Some m \<longrightarrow>
                 (\<exists>spec. dep_spec (repo self) deps m = Inr spec
                         \<and> image_ref (snd (svcs' ! i)) = Some spec))
           \<and> (mzbuild (snd (svcs ! i)) = None \<longrightarrow>
                 image_ref (snd (svcs' ! i)) = image_ref (snd (svcs ! i))))"
proof -
  from munge_services_ok_parts [OF assms] obtain svcs1 imgs where
    ml: "munge_loop h self svcs = (None, svcs1, imgs)"
    and ii: "inject_images (repo self) deps svcs1 = (None, svcs')"
    by blast
  note len1 = munge_loop_length [OF ml]
  note ok = inject_images_ok [OF ii]
  show ?thesis
  proof (intro conjI allI impI)
    show "length svcs' = length svcs" using ok len1 by simp
  next
    fix i assume i: "i < length svcs"
    with len1 have i1: "i < length svcs1" by simp
    note kb = munge_loop_keeps_build [OF ml i]
    from ok i1 kb show "fst (svcs' ! i) = fst (svcs ! i)" by simp
    from ok i1 show "mzbuild (snd (svcs' ! i)) = None" by simp
    { fix m assume "mzbuild (snd (svcs ! i)) = Some m"
      with kb have "mzbuild (snd (svcs1 ! i)) = Some m" by simp
      with ok i1
      show "\<exists>spec. dep_spec (repo self) deps m = Inr spec
                  \<and> image_ref (snd (svcs' ! i)) = Some spec"
        by blast }
    { assume "mzbuild (snd (svcs ! i)) = None"
      with kb have "mzbuild (snd (svcs1 ! i)) = None" by simp
      with ok i1 have "snd (svcs' ! i) = snd (svcs1 ! i)" by blast
      with kb show "image_ref (snd (svcs' ! i)) = image_ref (snd (svcs ! i))" by simp }
  qed
qed

lemmas example_defs =
  example_host_def failing_host_def example_repo_def example_doc_def example_composition_def
  example_dump_def empty_config_def raising_def passing_def meddling_def

lemmas model_defs =
  munge_services_def munge_service_def munge_uid_gid_def munge_coverage_def
  override_enter_def override_def install_services_def write_compose_def invoke_def
  test_case_def up_def make_persistent_def dict_get_def Let_def
  UnknownBuildTarget_def DisallowedHostPort_def DuplicateTestCase_def
  RuntimeInvocationFailed_def coverage_volume_def llvm_profile_file_def
  startswith_def endswith_def profile_entries_def build_resolves_def

section \<open>The claims\<close>

text \<open>
  C1. Whenever the set-up of an override succeeds and the body then returns or raises,
  the override ends with the body's outcome and with the live specification equal to
  the one before the call; the rendered file is the serialisation of that
  specification. Everything else the body did to the composition is kept.
\<close>

theorem override_restores_specification:
  assumes "override_enter h self svcs = (None, self1)" and "body self1 = (r, self2)"
  shows "override h self svcs body
           = (r, self2\<lparr>compose := compose self, rendered := yaml_dump h (compose self)\<rparr>)"
  using assms by (simp add: override_def write_compose_def Let_def)

text \<open>
  An override of the service \<^verbatim>\<open>db\<close> whose body rewrites every service and then
  raises: the exception propagates and the specification is the original one.
\<close>

theorem override_restores_specification_witness:
  "fst (override example_host example_composition
          [\<lparr>svc_name = ''db'', svc_config = empty_config\<lparr>image_ref := Some ''postgres:15''\<rparr>\<rparr>]
          (meddling (OtherException ''RuntimeError'' ''boom'')))
     = Some (OtherException ''RuntimeError'' ''boom'')
   \<and> compose (snd (override example_host example_composition
          [\<lparr>svc_name = ''db'', svc_config = empty_config\<lparr>image_ref := Some ''postgres:15''\<rparr>\<rparr>]
          (meddling (OtherException ''RuntimeError'' ''boom''))))
     = compose example_composition
   \<and> rendered (snd (override example_host example_composition
          [\<lparr>svc_name = ''db'', svc_config = empty_config\<lparr>image_ref := Some ''postgres:15''\<rparr>\<rparr>]
          (meddling (OtherException ''RuntimeError'' ''boom''))))
     = yaml_dump example_host (compose example_composition)"
proof -
  let ?svcs = "[\<lparr>svc_name = ''db'', svc_config = empty_config\<lparr>image_ref := Some ''postgres:15''\<rparr>\<rparr>]"
  let ?body = "meddling (OtherException ''RuntimeError'' ''boom'')
                 :: (string, string list) body"
  have "fst (override_enter example_host example_composition ?svcs) = None"
    by (simp add: model_defs example_defs)
  then have enter: "override_enter example_host example_composition ?svcs
      = (None, snd (override_enter example_host example_composition ?svcs))"
    by (simp add: prod_eq_iff)
  have body: "?body (snd (override_enter example_host example_composition ?svcs))
      = (Some (OtherException ''RuntimeError'' ''boom''),
         snd (?body (snd (override_enter example_host example_composition ?svcs))))"
    by (simp add: meddling_def)
  show ?thesis
    using override_restores_specification [where body = ?body, OF enter body] by simp
qed

text \<open>
  C2. An override naming the service \<^verbatim>\<open>cache\<close>, which the live specification
  does not have: the set-up raises nothing, and the body runs with \<^verbatim>\<open>cache\<close> added to
  the live specification.
\<close>

theorem override_installs_unknown_service:
  "fst (override_enter example_host example_composition
          [\<lparr>svc_name = ''cache'', svc_config = empty_config\<lparr>image_ref := Some ''redis:7''\<rparr>\<rparr>])
     = None
   \<and> map_of (services (compose example_composition)) ''cache'' = None
   \<and> map_of (services (compose (snd (override_enter example_host example_composition
          [\<lparr>svc_name = ''cache'', svc_config = empty_config\<lparr>image_ref := Some ''redis:7''\<rparr>\<rparr>]))))
        ''cache''
     = Some (empty_config\<lparr>image_ref := Some ''redis:7'', ports := Some []\<rparr>)
   \<and> fst (override example_host example_composition
          [\<lparr>svc_name = ''cache'', svc_config = empty_config\<lparr>image_ref := Some ''redis:7''\<rparr>\<rparr>]
          passing) = None"
  by (simp add: model_defs example_defs)




text \<open>
  C4, the claim as stated fails: with a build reference that the repository does not
  know, the munge raises \<^verbatim>\<open>unknown image\<close>, not the host-port error, and it raises it
  as well when \<^verbatim>\<open>allow_host_ports\<close> is set.
\<close>

theorem unknown_build_target_precedes_port_check:
  "fst (munge_services example_host example_composition
          [(''a'', empty_config\<lparr>mzbuild := Some ''nope'', ports := Some [PStr ''8080:80'']\<rparr>)])
     = Inl (UnknownBuildTarget ''nope'')
   \<and> UnknownBuildTarget ''nope'' \<noteq> DisallowedHostPort
   \<and> fst (munge_services example_host example_composition
          [(''a'', empty_config\<lparr>mzbuild := Some ''nope'', ports := Some [PStr ''8080:80''],
                                 allow_host_ports := Some True\<rparr>)])
     = Inl (UnknownBuildTarget ''nope'')"
  by code_simp

text \<open>
  C4, as amended. For a configuration with a host-bound port: if its build reference, if
  any, is known to the repository and \<^verbatim>\<open>allow_host_ports\<close> is not true, munging it
  raises \<^verbatim>\<open>DisallowedHostPort\<close>; if its build reference resolves, munging the same
  configuration with \<^verbatim>\<open>allow_host_ports\<close> set to true returns the dependency set, the
  rendered configuration has no key \<^verbatim>\<open>allow_host_ports\<close>, and every host-bound port
  entry is where and what it was.
\<close>

theorem host_port_policy:
  assumes "ports c = Some ps" and "p \<in> set ps" and "CHR '':'' \<in> set (port_str p)"
  shows "(allow_host_ports c \<noteq> Some True
          \<and> (\<forall>m. mzbuild c = Some m \<longrightarrow> images (repo self) m \<noteq> None)
          \<longrightarrow> fst (munge_services h self [(n, c)]) = Inl DisallowedHostPort)
       \<and> (build_resolves (repo self) c deps
          \<longrightarrow> (\<exists>c' ps'. munge_services h self [(n, c\<lparr>allow_host_ports := Some True\<rparr>)]
                           = (Inr deps, [(n, c')])
                 \<and> allow_host_ports c' = None
                 \<and> ports c' = Some ps' \<and> length ps' = length ps
                 \<and> (\<forall>i<length ps. CHR '':'' \<in> set (port_str (ps ! i)) \<longrightarrow> ps' ! i = ps ! i)))"
proof (intro conjI impI)
  assume a: "allow_host_ports c \<noteq> Some True
             \<and> (\<forall>m. mzbuild c = Some m \<longrightarrow> images (repo self) m \<noteq> None)"
  with munge_service_disallowed [OF assms, of self h n]
  have "fst (munge_service h self n c) = Some DisallowedHostPort" by simp
  then show "fst (munge_services h self [(n, c)]) = Inl DisallowedHostPort"
    by (auto simp: munge_services_def split: prod.splits option.splits)
next
  assume br: "build_resolves (repo self) c deps"
  let ?c = "c\<lparr>allow_host_ports := Some True\<rparr>"
  let ?ps' = "map (\<lambda>p. if preserve_ports self \<and> CHR '':'' \<notin> set (port_str p)
                      then PStr (port_str p @ '':'' @ port_str p) else p) ps"
  have al: "allow_host_ports ?c = Some True" by simp
  have pres: "\<forall>i<length ps. CHR '':'' \<in> set (port_str (ps ! i)) \<longrightarrow> ?ps' ! i = ps ! i"
    by simp
  show "\<exists>c' ps'. munge_services h self [(n, ?c)] = (Inr deps, [(n, c')])
                 \<and> allow_host_ports c' = None
                 \<and> ports c' = Some ps' \<and> length ps' = length ps
                 \<and> (\<forall>i<length ps. CHR '':'' \<in> set (port_str (ps ! i)) \<longrightarrow> ps' ! i = ps ! i)"
  proof (cases "mzbuild c")
    case None
    with br have rs: "resolve_dependencies (repo self) [] = Inr deps"
      by (simp add: build_resolves_def)
    from None assms(1) rs pres show ?thesis
      by (simp add: munge_services_def munge_service_allowed [OF al] munge_coverage_eq)
  next
    case (Some m)
    with br obtain img spec where
      im: "images (repo self) m = Some img"
      and rs: "resolve_dependencies (repo self) [img] = Inr deps"
      and sp: "dep_spec (repo self) deps m = Inr spec"
      by (auto simp: build_resolves_def split: option.splits sum.splits)
    from Some assms(1) im rs sp pres show ?thesis
      by (simp add: munge_services_def munge_service_allowed [OF al] munge_coverage_eq)
  qed
qed

text \<open>
  A configuration with the ports \<^verbatim>\<open>5432\<close> and \<^verbatim>\<open>8080:80\<close> and a known build
  reference, munged while ports are preserved.
\<close>

theorem host_port_policy_witness:
  "fst (munge_services example_host (example_composition\<lparr>preserve_ports := True\<rparr>)
          [(''a'', empty_config\<lparr>mzbuild := Some ''materialized'',
                                 ports := Some [PInt 5432, PStr ''8080:80'']\<rparr>)])
     = Inl DisallowedHostPort
   \<and> (\<exists>c' ps'.
         munge_services example_host (example_composition\<lparr>preserve_ports := True\<rparr>)
           [(''a'', empty_config\<lparr>mzbuild := Some ''materialized'',
                                  ports := Some [PInt 5432, PStr ''8080:80''],
                                  allow_host_ports := Some True\<rparr>)]
           = (Inr [''materialized''], [(''a'', c')])
         \<and> allow_host_ports c' = None \<and> ports c' = Some ps' \<and> length ps' = 2
         \<and> ps' ! 1 = PStr ''8080:80'')"
proof -
  let ?c = "empty_config\<lparr>mzbuild := Some ''materialized'',
                          ports := Some [PInt 5432, PStr ''8080:80'']\<rparr>"
  let ?self = "example_composition\<lparr>preserve_ports := True\<rparr>"
  have h1: "ports ?c = Some [PInt 5432, PStr ''8080:80'']" by simp
  have h2: "PStr ''8080:80'' \<in> set [PInt 5432, PStr ''8080:80'']" by simp
  have h3: "CHR '':'' \<in> set (port_str (PStr ''8080:80''))" by simp
  have a1: "allow_host_ports ?c \<noteq> Some True" by (simp add: empty_config_def)
  have a2: "\<forall>m. mzbuild ?c = Some m \<longrightarrow> images (repo ?self) m \<noteq> None"
    by (simp add: example_composition_def example_repo_def)
  have a3: "build_resolves (repo ?self) ?c [''materialized'']"
    by code_simp
  note w = host_port_policy [OF h1 h2 h3, where self = ?self and deps = "[''materialized'']"
      and h = example_host and n = "''a''"]
  from w a1 a2 have p1: "fst (munge_services example_host ?self [(''a'', ?c)])
      = Inl DisallowedHostPort"
    by blast
  from w a3 obtain c' ps' where
    "munge_services example_host ?self [(''a'', ?c\<lparr>allow_host_ports := Some True\<rparr>)]
       = (Inr [''materialized''], [(''a'', c')])"
    "allow_host_ports c' = None" "ports c' = Some ps'"
    "length ps' = length [PInt 5432, PStr ''8080:80'']"
    "\<forall>i<length [PInt 5432, PStr ''8080:80''].
        CHR '':'' \<in> set (port_str ([PInt 5432, PStr ''8080:80''] ! i))
        \<longrightarrow> ps' ! i = [PInt 5432, PStr ''8080:80''] ! i"
    by blast
  then have "munge_services example_host ?self [(''a'', ?c\<lparr>allow_host_ports := Some True\<rparr>)]
       = (Inr [''materialized''], [(''a'', c')])
     \<and> allow_host_ports c' = None \<and> ports c' = Some ps' \<and> length ps' = 2
     \<and> ps' ! 1 = PStr ''8080:80''"
    by simp
  with p1 show ?thesis by (simp add: empty_config_def)
qed

text \<open>
  C5, the claim as stated fails: of two earlier entries for \<^verbatim>\<open>LLVM_PROFILE_FILE\<close> only
  the first is replaced, so two entries with that variable remain; and a coverage volume
  listed twice stays listed twice.
\<close>

theorem coverage_injection_keeps_duplicates:
  "profile_entries (dict_get (environment
      (munge_coverage ''db'' (munge_coverage ''db''
         (empty_config\<lparr>environment := Some [''LLVM_PROFILE_FILE=/tmp/a.profraw'',
                                              ''LLVM_PROFILE_FILE=/tmp/b.profraw'']\<rparr>)))) [])
     = [''LLVM_PROFILE_FILE=/coverage/db-%p-%9m%c.profraw'', ''LLVM_PROFILE_FILE=/tmp/b.profraw'']
   \<and> dict_get (volumes
      (munge_coverage ''db'' (munge_coverage ''db''
         (empty_config\<lparr>volumes := Some [''./coverage:/coverage'', ''./coverage:/coverage'']\<rparr>)))) []
     = [''./coverage:/coverage'', ''./coverage:/coverage'']"
  by code_simp

text \<open>
  C5, as amended. Injecting twice gives what injecting once gives. A configuration that
  lists the coverage volume at most once lists it exactly once afterwards, and one with
  at most one entry for \<^verbatim>\<open>LLVM_PROFILE_FILE\<close> has afterwards exactly one, the one for
  this service.
\<close>

theorem coverage_injection_idempotent:
  "munge_coverage n (munge_coverage n c) = munge_coverage n c
   \<and> (count_list (dict_get (volumes c) []) coverage_volume \<le> 1
      \<longrightarrow> count_list (dict_get (volumes (munge_coverage n c)) []) coverage_volume = 1)
   \<and> (length (profile_entries (dict_get (environment c) [])) \<le> 1
      \<longrightarrow> profile_entries (dict_get (environment (munge_coverage n c)) [])
            = [llvm_profile_file n])"
proof (intro conjI impI)
  show "munge_coverage n (munge_coverage n c) = munge_coverage n c"
    by (rule munge_coverage_idem)
next
  assume "count_list (dict_get (volumes c) []) coverage_volume \<le> 1"
  then show "count_list (dict_get (volumes (munge_coverage n c)) []) coverage_volume = 1"
    by (simp add: munge_coverage_volumes)
next
  assume "length (profile_entries (dict_get (environment c) [])) \<le> 1"
  then have "tl (profile_entries (dict_get (environment c) [])) = []"
    by (cases "profile_entries (dict_get (environment c) [])") auto
  then show "profile_entries (dict_get (environment (munge_coverage n c)) [])
            = [llvm_profile_file n]"
    by (simp add: munge_coverage_environment)
qed

text \<open>
  A configuration that already has the coverage volume and one entry for the variable.
\<close>

theorem coverage_injection_idempotent_witness:
  "count_list (dict_get (volumes (munge_coverage ''db''
       (empty_config\<lparr>volumes := Some [''./coverage:/coverage''],
                      environment := Some [''RUST_LOG=info'',
                                           ''LLVM_PROFILE_FILE=/tmp/a.profraw'']\<rparr>))) [])
     coverage_volume = 1
   \<and> profile_entries (dict_get (environment (munge_coverage ''db''
       (empty_config\<lparr>volumes := Some [''./coverage:/coverage''],
                      environment := Some [''RUST_LOG=info'',
                                           ''LLVM_PROFILE_FILE=/tmp/a.profraw'']\<rparr>))) [])
     = [llvm_profile_file ''db'']"
proof -
  let ?c = "empty_config\<lparr>volumes := Some [''./coverage:/coverage''],
                          environment := Some [''RUST_LOG=info'',
                                               ''LLVM_PROFILE_FILE=/tmp/a.profraw'']\<rparr>"
  have v: "count_list (dict_get (volumes ?c) []) coverage_volume \<le> 1" by code_simp
  have e: "length (profile_entries (dict_get (environment ?c) [])) \<le> 1" by code_simp
  from coverage_injection_idempotent [of "''db''" ?c] v e show ?thesis by blast
qed

text \<open>
  C6, the claim as stated fails: the empty configuration munges successfully and has
  afterwards neither a build reference nor an image.
\<close>

theorem munge_leaves_config_without_image:
  "munge_services example_host example_composition [(''a'', empty_config)]
     = (Inr [], [(''a'', empty_config\<lparr>ports := Some []\<rparr>)])
   \<and> mzbuild (empty_config\<lparr>ports := Some []\<rparr>) = None
   \<and> image_ref (empty_config\<lparr>ports := Some []\<rparr>) = None"
  by code_simp

text \<open>
  C6, as amended. After a munge that returns a dependency set, the services are the same
  in number and name, no configuration has the key \<^verbatim>\<open>mzbuild\<close>, a configuration that
  had a build reference has as its image the specification that the returned dependency
  set gives for that reference, and any other configuration keeps its image: a
  configuration that had a build reference or an image has exactly the image
  afterwards.
\<close>

theorem munge_resolves_build_references:
  assumes "munge_services h self svcs = (Inr deps, svcs')"
  shows "length svcs' = length svcs
     \<and> (\<forall>i<length svcs.
           fst (svcs' ! i) = fst (svcs ! i)
           \<and> mzbuild (snd (svcs' ! i)) = None
           \<and> (\<forall>m. mzbuild (snd (svcs ! i)) = Some m \<longrightarrow>
                 (\<exists>spec. dep_spec (repo self) deps m = Inr spec
                         \<and> image_ref (snd (svcs' ! i)) = Some spec))
           \<and> (mzbuild (snd (svcs ! i)) = None \<longrightarrow>
                 image_ref (snd (svcs' ! i)) = image_ref (snd (svcs ! i)))
           \<and> (mzbuild (snd (svcs ! i)) \<noteq> None \<or> image_ref (snd (svcs ! i)) \<noteq> None \<longrightarrow>
                 image_ref (snd (svcs' ! i)) \<noteq> None))"
proof -
  note r = munge_services_resolved [OF assms]
  have "\<forall>i<length svcs.
          mzbuild (snd (svcs ! i)) \<noteq> None \<or> image_ref (snd (svcs ! i)) \<noteq> None \<longrightarrow>
          image_ref (snd (svcs' ! i)) \<noteq> None"
  proof (intro allI impI)
    fix i
    assume i: "i < length svcs"
      and d: "mzbuild (snd (svcs ! i)) \<noteq> None \<or> image_ref (snd (svcs ! i)) \<noteq> None"
    from r i have
      1: "\<forall>m. mzbuild (snd (svcs ! i)) = Some m \<longrightarrow>
                 (\<exists>spec. dep_spec (repo self) deps m = Inr spec
                         \<and> image_ref (snd (svcs' ! i)) = Some spec)"
      and 2: "mzbuild (snd (svcs ! i)) = None \<longrightarrow>
                 image_ref (snd (svcs' ! i)) = image_ref (snd (svcs ! i))"
      by blast+
    show "image_ref (snd (svcs' ! i)) \<noteq> None"
    proof (cases "mzbuild (snd (svcs ! i))")
      case None
      with 2 d show ?thesis by simp
    next
      case (Some m)
      with 1 show ?thesis by auto
    qed
  qed
  with r show ?thesis by blast
qed

text \<open>
  Two services, one with the build reference \<^verbatim>\<open>materialized\<close>.
\<close>

theorem munge_resolves_build_references_witness:
  "munge_services example_host example_composition
      [(''mz'', empty_config\<lparr>mzbuild := Some ''materialized''\<rparr>),
       (''db'', empty_config\<lparr>image_ref := Some ''postgres:14''\<rparr>)]
     = (Inr [''materialized''],
        [(''mz'', empty_config\<lparr>image_ref := Some ''materialize/materialized:mzbuild-1'',
                                ports := Some []\<rparr>),
         (''db'', empty_config\<lparr>image_ref := Some ''postgres:14'', ports := Some []\<rparr>)])
   \<and> dep_spec (repo example_composition) [''materialized''] ''materialized''
       = Inr ''materialize/materialized:mzbuild-1''"
proof -
  have ms: "munge_services example_host example_composition
      [(''mz'', empty_config\<lparr>mzbuild := Some ''materialized''\<rparr>),
       (''db'', empty_config\<lparr>image_ref := Some ''postgres:14''\<rparr>)]
     = (Inr [''materialized''],
        [(''mz'', empty_config\<lparr>image_ref := Some ''materialize/materialized:mzbuild-1'',
                                ports := Some []\<rparr>),
         (''db'', empty_config\<lparr>image_ref := Some ''postgres:14'', ports := Some []\<rparr>)])"
    by code_simp
  have sp: "dep_spec (repo example_composition) [''materialized''] ''materialized''
       = Inr ''materialize/materialized:mzbuild-1''"
    by code_simp
  note w = munge_resolves_build_references [OF ms]
  from w ms sp show ?thesis by simp
qed

text \<open>
  C7, the claim as stated fails: a body that raises an exception whose \<^verbatim>\<open>str\<close> is
  empty (a bare \<^verbatim>\<open>assert\<close>) is recorded with the empty description.
\<close>

theorem test_case_empty_description:
  "test_case example_composition ''t'' 0 1 (raising (OtherException ''AssertionError'' ''''))
     = (None, example_composition
                \<lparr>test_results := [(''t'', \<lparr>duration = 1, error = Some ''''\<rparr>)]\<rparr>)"
  by (simp add: test_case_def raising_def example_composition_def)

text \<open>
  C7, as amended. In a scope whose name is new and whose body returns or raises an
  \<^verbatim>\<open>Exception\<close>, nothing propagates and the result recorded under the name has
  the error \<^verbatim>\<open>str(e)\<close>, or none when the body returned, and as duration the
  difference of the two clock readings, which is not negative when the clock did not
  step back.
\<close>

theorem test_case_records_outcome:
  assumes "map_of (test_results self) n = None"
    and "body self = (r, self1)"
    and "\<forall>e. r = Some e \<longrightarrow> isinstance_Exception e"
  shows "test_case self n t0 t1 body
           = (None, self1\<lparr>test_results :=
                AList.update n \<lparr>duration = t1 - t0, error = map_option str_exn r\<rparr>
                  (test_results self1)\<rparr>)
         \<and> map_of (test_results (snd (test_case self n t0 t1 body))) n
             = Some \<lparr>duration = t1 - t0, error = map_option str_exn r\<rparr>
         \<and> (t0 \<le> t1 \<longrightarrow> 0 \<le> t1 - t0)"
  using assms by (cases r) (simp_all add: test_case_def AList.update_conv')

text \<open>
  A scope whose body raises a \<^verbatim>\<open>UIError\<close>, with the clock readings 2 and 5.
\<close>

theorem test_case_records_outcome_witness:
  "test_case example_composition ''t'' 2 5 (raising (UIError ''no such table'' None))
     = (None, example_composition
                \<lparr>test_results := [(''t'', \<lparr>duration = 3, error = Some ''no such table''\<rparr>)]\<rparr>)"
  using test_case_records_outcome [of example_composition "''t''"
      "raising (UIError ''no such table'' None)" "Some (UIError ''no such table'' None)"
      example_composition 2 5]
  by (simp add: raising_def example_composition_def)

text \<open>
  C8, the claim as stated fails: a scope \<^verbatim>\<open>t\<close> left by a \<^verbatim>\<open>KeyboardInterrupt\<close> records
  nothing, and a second scope \<^verbatim>\<open>t\<close> is then accepted and recorded.
\<close>

theorem interrupted_test_case_can_be_repeated:
  "test_case example_composition ''t'' 0 1
       (raising (BaseExceptionOnly ''KeyboardInterrupt'' ''''))
     = (Some (BaseExceptionOnly ''KeyboardInterrupt'' ''''), example_composition)
   \<and> test_case example_composition ''t'' 2 3 passing
     = (None, example_composition\<lparr>test_results := [(''t'', \<lparr>duration = 1, error = None\<rparr>)]\<rparr>)"
  by (simp add: test_case_def raising_def passing_def example_composition_def)

text \<open>
  C8, as amended. After a scope that was left normally, its body having returned or
  raised an \<^verbatim>\<open>Exception\<close>, a result is recorded under its name, and a second scope of
  the same name raises \<^verbatim>\<open>DuplicateTestCase\<close> whatever its body is, leaving the
  composition, and with it the recorded result, as it was.
\<close>

theorem duplicate_test_case_rejected:
  assumes "test_case self n t0 t1 body1 = (None, self1)"
  shows "map_of (test_results self1) n \<noteq> None
         \<and> test_case self1 n t2 t3 body2 = (Some (DuplicateTestCase n), self1)"
proof -
  from assms have "map_of (test_results self1) n \<noteq> None"
    by (auto simp: test_case_def AList.update_conv' split: if_splits prod.splits option.splits)
  then show ?thesis by (simp add: test_case_def)
qed

text \<open>
  The second scope \<^verbatim>\<open>t\<close> after one that failed with a \<^verbatim>\<open>UIError\<close>.
\<close>

theorem duplicate_test_case_rejected_witness:
  "test_case (example_composition
                \<lparr>test_results := [(''t'', \<lparr>duration = 3, error = Some ''no such table''\<rparr>)]\<rparr>)
     ''t'' 6 7 passing
     = (Some (DuplicateTestCase ''t''),
        example_composition
          \<lparr>test_results := [(''t'', \<lparr>duration = 3, error = Some ''no such table''\<rparr>)]\<rparr>)"
proof -
  have "test_case example_composition ''t'' 2 5 (raising (UIError ''no such table'' None))
     = (None, example_composition
                \<lparr>test_results := [(''t'', \<lparr>duration = 3, error = Some ''no such table''\<rparr>)]\<rparr>)"
    by (simp add: test_case_def raising_def example_composition_def)
  from duplicate_test_case_rejected [OF this] show ?thesis by simp
qed

text \<open>
  C9. \<^verbatim>\<open>up\<close> with \<^verbatim>\<open>persistent=True\<close> on a host where \<^verbatim>\<open>docker compose up\<close> exits
  with status 1: the \<^verbatim>\<open>UIError\<close> propagates and the live specification and the
  rendered file keep the entrypoint \<^verbatim>\<open>sleep infinity\<close>, which the service did not
  have before.
\<close>

theorem up_failure_keeps_persistent_override:
  "up failing_host example_composition [''db''] True True True
     = (Some (RuntimeInvocationFailed 1),
        example_composition\<lparr>compose := make_persistent example_doc,
                             rendered := example_dump (make_persistent example_doc)\<rparr>)
   \<and> entrypoint (snd (hd (services (make_persistent example_doc)))) = Some [''sleep'', ''infinity'']
   \<and> entrypoint (snd (hd (services example_doc))) = None"
  by (simp add: up_def invoke_def write_compose_def Let_def failing_host_def example_host_def
        example_composition_def make_persistent_def example_doc_def empty_config_def)

text \<open>
  C10. In a scope whose name is new, an exception of the body that is not an instance
  of \<^verbatim>\<open>Exception\<close> propagates, and the composition is the one the body left: the
  harness records nothing.
\<close>

theorem test_case_propagates_non_exceptions:
  assumes "map_of (test_results self) n = None"
    and "body self = (Some e, self1)"
    and "\<not> isinstance_Exception e"
  shows "test_case self n t0 t1 body = (Some e, self1)"
  using assms by (simp add: test_case_def)

text \<open>
  A \<^verbatim>\<open>KeyboardInterrupt\<close> in the scope \<^verbatim>\<open>t\<close>.
\<close>

theorem test_case_propagates_non_exceptions_witness:
  "test_case example_composition ''t'' 0 1 (raising (BaseExceptionOnly ''KeyboardInterrupt'' ''''))
     = (Some (BaseExceptionOnly ''KeyboardInterrupt'' ''''), example_composition)
   \<and> map_of (test_results example_composition) ''t'' = None"
  using test_case_propagates_non_exceptions [of example_composition "''t''"
      "raising (BaseExceptionOnly ''KeyboardInterrupt'' '''')"
      "BaseExceptionOnly ''KeyboardInterrupt'' ''''" example_composition 0 1]
  by (simp add: raising_def example_composition_def)


end
